theory Spec2Isabelle
  imports Complex_Main
begin

section \<open>The host environment of \<open>src/App.tsx\<close>\<close>

text \<open>
  \<open>App.tsx\<close> has two pieces of logic: the hook \<open>useTheme\<close> (lines 5-25) and the
  effect of \<open>App\<close> that attaches an \<open>IntersectionObserver\<close> (lines 40-67). Both talk to
  globals of the host. The source has no \<open>try\<close>/\<open>catch\<close>, so an exception raised by a
  global leaves the function that touched it; exceptions are values of type \<open>error\<close>.
\<close>

datatype error = ReferenceError | TypeError | SecurityError

text \<open>
  What the host provides. \<open>window_defined\<close> is the test \<open>typeof window !== 'undefined'\<close>;
  \<open>storage_denied\<close> says that touching \<open>localStorage\<close> raises (a restricted context);
  \<open>matchMedia_defined\<close> says that \<open>window.matchMedia\<close> is a function, and \<open>prefers_dark\<close>
  is what the media query \<open>(prefers-color-scheme: dark)\<close> reports;
  \<open>observer_defined\<close> says that the global \<open>IntersectionObserver\<close> exists.
\<close>

record host =
  window_defined :: bool
  storage_denied :: bool
  matchMedia_defined :: bool
  prefers_dark :: bool
  observer_defined :: bool

text \<open>
  The mutable part of the browser that \<open>useTheme\<close> touches: the contents of
  \<open>localStorage\<close> and the class tokens of \<open>document.documentElement\<close> (a token set: only
  \<open>add\<close> and \<open>remove\<close> are used, the order of the tokens is not modelled).
\<close>

record browser =
  storage :: "string \<rightharpoonup> string"
  root_classes :: "string set"

text \<open>\<open>localStorage.getItem(k)\<close>: the stored string, or \<open>null\<close> (here \<open>None\<close>).\<close>

definition getItem :: "host \<Rightarrow> string \<Rightarrow> browser \<Rightarrow> error + string option" where
  "getItem h k b = (if storage_denied h then Inl SecurityError else Inr (storage b k))"

text \<open>\<open>localStorage.setItem(k, v)\<close>: the browser after the call, and how the call ended.\<close>

definition setItem :: "host \<Rightarrow> string \<Rightarrow> string \<Rightarrow> browser \<Rightarrow> (error + unit) \<times> browser" where
  "setItem h k v b =
     (if storage_denied h then (Inl SecurityError, b)
      else (Inr (), b\<lparr>storage := (storage b)(k \<mapsto> v)\<rparr>))"

text \<open>\<open>window.matchMedia('(prefers-color-scheme: dark)').matches\<close>.\<close>

definition matchMedia_matches :: "host \<Rightarrow> error + bool" where
  "matchMedia_matches h = (if matchMedia_defined h then Inr (prefers_dark h) else Inl TypeError)"

text \<open>\<open>root.classList.add(c)\<close> and \<open>root.classList.remove(c)\<close>.\<close>

definition classList_add :: "string \<Rightarrow> browser \<Rightarrow> browser" where
  "classList_add c b = b\<lparr>root_classes := insert c (root_classes b)\<rparr>"

definition classList_remove :: "string \<Rightarrow> browser \<Rightarrow> browser" where
  "classList_remove c b = b\<lparr>root_classes := root_classes b - {c}\<rparr>"

text \<open>JavaScript's truthiness of \<open>string | null\<close>: \<open>null\<close> and the empty string are falsy.\<close>

definition truthy :: "string option \<Rightarrow> bool" where
  "truthy stored = (case stored of None \<Rightarrow> False | Some v \<Rightarrow> v \<noteq> '''')"

section \<open>\<open>useTheme\<close>\<close>

text \<open>
  The initialiser of \<open>useState\<close> (lines 6-11):
  \<^verbatim>\<open>
    if (typeof window === 'undefined') return false
    const stored = localStorage.getItem('theme')
    if (stored) return stored === 'dark'
    return window.matchMedia('(prefers-color-scheme: dark)').matches
  \<close>
\<close>

definition useTheme_init :: "host \<Rightarrow> browser \<Rightarrow> error + bool" where
  "useTheme_init h b =
     (if \<not> window_defined h then Inr False
      else case getItem h ''theme'' b of
        Inl e \<Rightarrow> Inl e
      | Inr stored \<Rightarrow>
          if truthy stored then Inr (stored = Some ''dark'')
          else matchMedia_matches h)"

text \<open>
  The effect on \<open>isDark\<close> (lines 13-22). React runs an effect only once the component
  is in a document, so \<open>document.documentElement\<close> is there. The class of the root is
  changed first, the write to storage comes second, so a write that raises leaves the
  class changed.
  \<^verbatim>\<open>
    const root = document.documentElement
    if (isDark) { root.classList.add('dark');    localStorage.setItem('theme', 'dark') }
    else        { root.classList.remove('dark'); localStorage.setItem('theme', 'light') }
  \<close>
\<close>

definition useTheme_effect :: "host \<Rightarrow> bool \<Rightarrow> browser \<Rightarrow> (error + unit) \<times> browser" where
  "useTheme_effect h isDark b =
     (if isDark then setItem h ''theme'' ''dark'' (classList_add ''dark'' b)
      else setItem h ''theme'' ''light'' (classList_remove ''dark'' b))"

text \<open>
  Mounting the hook in a document: the initialiser gives the first \<open>isDark\<close>, then the
  effect runs with it. The result is the mode (or the exception) and the browser.
\<close>

definition useTheme_mount :: "host \<Rightarrow> browser \<Rightarrow> (error + bool) \<times> browser" where
  "useTheme_mount h b =
     (case useTheme_init h b of
        Inl e \<Rightarrow> (Inl e, b)
      | Inr d \<Rightarrow>
          (case useTheme_effect h d b of
             (Inl e, b') \<Rightarrow> (Inl e, b')
           | (Inr u, b') \<Rightarrow> (Inr d, b')))"

text \<open>
  The button's \<open>onClick\<close> (line 99) is \<open>setIsDark((v) => !v)\<close>: the mode flips, and since
  \<open>isDark\<close> has changed the effect runs with the new mode.
\<close>

definition toggle :: "host \<Rightarrow> bool \<Rightarrow> browser \<Rightarrow> (error + bool) \<times> browser" where
  "toggle h isDark b =
     (case useTheme_effect h (\<not> isDark) b of
        (Inl e, b') \<Rightarrow> (Inl e, b')
      | (Inr u, b') \<Rightarrow> (Inr (\<not> isDark), b'))"

text \<open>\<open>n\<close> clicks in a row; an exception ends the run.\<close>

fun toggles :: "host \<Rightarrow> nat \<Rightarrow> bool \<Rightarrow> browser \<Rightarrow> (error + bool) \<times> browser" where
  "toggles h 0 isDark b = (Inr isDark, b)"
| "toggles h (Suc n) isDark b =
     (case toggle h isDark b of
        (Inl e, b') \<Rightarrow> (Inl e, b')
      | (Inr d, b') \<Rightarrow> toggles h n d b')"

text \<open>The string the effect stores for a mode.\<close>

definition theme_string :: "bool \<Rightarrow> string" where
  "theme_string isDark = (if isDark then ''dark'' else ''light'')"

text \<open>
  Root class and storage agree with the mode: the root carries \<open>dark\<close> exactly when the
  mode is dark, and the key \<open>theme\<close> holds the mode's string.
\<close>

definition consistent :: "bool \<Rightarrow> browser \<Rightarrow> bool" where
  "consistent isDark b \<longleftrightarrow>
     ((''dark'' \<in> root_classes b) = isDark) \<and> storage b ''theme'' = Some (theme_string isDark)"

section \<open>The observer effect of \<open>App\<close>\<close>

text \<open>
  An element of the document, as far as the effect looks at it: its identity (\<open>node\<close>),
  \<open>tagName\<close>, the \<open>id\<close> attribute (absent, or a string that may be empty) and whether it
  has the attribute \<open>data-reveal\<close>.
\<close>

record element =
  node :: nat
  tagName :: string
  id_attr :: "string option"
  data_reveal :: bool

text \<open>\<open>target.id\<close>: the attribute's value, the empty string when there is none.\<close>

definition elem_id :: "element \<Rightarrow> string" where
  "elem_id t = (case id_attr t of None \<Rightarrow> '''' | Some v \<Rightarrow> v)"

text \<open>
  An \<open>IntersectionObserverEntry\<close>. \<open>intersectionRatio\<close> is a double in the source; it is
  only compared with \<open>0.25\<close>, which is a double, and that comparison is exact, so the ratio
  is taken as the real number the double denotes.
\<close>

record entry =
  target :: element
  isIntersecting :: bool
  intersectionRatio :: real

text \<open>
  The state the effect and its callback work on: the React state \<open>active\<close> (initially
  \<open>hero\<close>, line 37), the class tokens of every element, and \<open>observerRef.current\<close>:
  \<open>None\<close> is \<open>null\<close>, otherwise the targets the referenced observer watches
  (\<open>disconnect()\<close> empties them).
\<close>

record app_state =
  active :: string
  classList :: "nat \<Rightarrow> string set"
  observerRef :: "element list option"

text \<open>\<open>target.classList.add(c)\<close> on the element \<open>n\<close>.\<close>

definition add_class :: "nat \<Rightarrow> string \<Rightarrow> app_state \<Rightarrow> app_state" where
  "add_class n c s = s\<lparr>classList := (classList s)(n := insert c (classList s n))\<rparr>"

text \<open>
  The body of \<open>entries.forEach\<close> (lines 47-57):
  \<^verbatim>\<open>
    const target = entry.target as HTMLElement
    if (target.hasAttribute('data-reveal')) {
      if (entry.isIntersecting) target.classList.add('show')
    }
    if (target.tagName === 'SECTION' && target.id) {
      if (entry.isIntersecting && entry.intersectionRatio > 0.25) {
        setActive(target.id as SectionId)
      }
    }
  \<close>
\<close>

definition handle_entry :: "entry \<Rightarrow> app_state \<Rightarrow> app_state" where
  "handle_entry e s =
     (let t = target e;
          s1 = (if data_reveal t
                then (if isIntersecting e then add_class (node t) ''show'' s else s)
                else s)
      in if tagName t = ''SECTION'' \<and> elem_id t \<noteq> ''''
         then (if isIntersecting e \<and> intersectionRatio e > 1 / 4
               then s1\<lparr>active := elem_id t\<rparr> else s1)
         else s1)"

text \<open>The callback given to the observer: the entries of one batch, in delivery order.\<close>

definition observer_callback :: "entry list \<Rightarrow> app_state \<Rightarrow> app_state" where
  "observer_callback entries s = fold handle_entry entries s"

text \<open>A sequence of batches, each handled by one call of the callback.\<close>

definition run_batches :: "entry list list \<Rightarrow> app_state \<Rightarrow> app_state" where
  "run_batches batches s = fold observer_callback batches s"

text \<open>\<open>observer.observe(el)\<close>: watching an element twice is watching it once.\<close>

definition observe :: "element \<Rightarrow> element list \<Rightarrow> element list" where
  "observe el els = (if el \<in> set els then els else els @ [el])"

text \<open>\<open>observerRef.current?.disconnect()\<close>, and the cleanup \<open>observer.disconnect()\<close>.\<close>

definition disconnect :: "app_state \<Rightarrow> app_state" where
  "disconnect s = s\<lparr>observerRef := map_option (\<lambda>els. []) (observerRef s)\<rparr>"

text \<open>
  The effect (lines 40-67) on a document given as the list of its elements. The two
  queries are \<open>section[id]\<close> and \<open>[data-reveal]\<close>. \<open>new IntersectionObserver\<close> raises
  \<open>ReferenceError\<close> when the global does not exist; the previous observer has been
  disconnected by then.
\<close>

definition App_effect :: "host \<Rightarrow> element list \<Rightarrow> app_state \<Rightarrow> (error + unit) \<times> app_state" where
  "App_effect h doc s =
     (let sections = filter (\<lambda>el. tagName el = ''SECTION'' \<and> id_attr el \<noteq> None) doc;
          revealEls = filter data_reveal doc;
          s1 = disconnect s
      in if \<not> observer_defined h then (Inl ReferenceError, s1)
         else (Inr (), s1\<lparr>observerRef := Some (fold observe revealEls (fold observe sections []))\<rparr>))"

text \<open>The targets watched by the observer that \<open>observerRef\<close> holds.\<close>

definition watched :: "app_state \<Rightarrow> element list" where
  "watched s = (case observerRef s of None \<Rightarrow> [] | Some els \<Rightarrow> els)"

text \<open>
  The host's side of a notification: it calls the callback with the entries of the
  targets the observer watches, and with nothing else.
\<close>

definition deliver :: "entry list \<Rightarrow> app_state \<Rightarrow> app_state" where
  "deliver entries s = observer_callback (filter (\<lambda>e. target e \<in> set (watched s)) entries) s"

definition deliver_all :: "entry list list \<Rightarrow> app_state \<Rightarrow> app_state" where
  "deliver_all batches s = fold deliver batches s"

text \<open>The guard of line 53 together with the guard of line 52.\<close>

definition qualifies :: "entry \<Rightarrow> bool" where
  "qualifies e \<longleftrightarrow>
     tagName (target e) = ''SECTION'' \<and> elem_id (target e) \<noteq> '''' \<and>
     isIntersecting e \<and> intersectionRatio e > 1 / 4"

section \<open>Theorems about \<open>useTheme\<close>\<close>

lemma effect_ok:
  "\<not> storage_denied h \<Longrightarrow>
   useTheme_effect h m b =
     (Inr (), b\<lparr>root_classes := (if m then insert ''dark'' (root_classes b)
                                   else root_classes b - {''dark''}),
               storage := (storage b)(''theme'' \<mapsto> theme_string m)\<rparr>)"
  by (simp add: useTheme_effect_def setItem_def classList_add_def classList_remove_def
      theme_string_def)

lemma effect_consistent:
  "\<not> storage_denied h \<Longrightarrow> consistent m (snd (useTheme_effect h m b))"
  by (simp add: effect_ok consistent_def)

lemma init_after_effect:
  "\<not> storage_denied h \<Longrightarrow> window_defined h' \<Longrightarrow> \<not> storage_denied h' \<Longrightarrow>
   useTheme_init h' (snd (useTheme_effect h m b)) = Inr m"
  by (simp add: effect_ok useTheme_init_def getItem_def truthy_def theme_string_def)

lemma toggle_ok:
  "\<not> storage_denied h \<Longrightarrow> toggle h d b = (Inr (\<not> d), snd (useTheme_effect h (\<not> d) b))"
  by (simp add: toggle_def effect_ok)

lemma toggles_Suc_ok:
  "\<not> storage_denied h \<Longrightarrow>
   toggles h (Suc n) d b =
     (Inr (if even n then \<not> d else d),
      snd (useTheme_effect h (if even n then \<not> d else d) (snd (toggles h n d b))))"
proof (induction n arbitrary: d b)
  case 0
  then show ?case by (simp add: toggle_ok)
next
  case (Suc n)
  have "toggles h (Suc (Suc n)) d b = toggles h (Suc n) (\<not> d) (snd (useTheme_effect h (\<not> d) b))"
    using Suc.prems by (simp add: toggle_ok)
  also have "\<dots> = (Inr (if even n then d else \<not> d),
      snd (useTheme_effect h (if even n then d else \<not> d)
        (snd (toggles h n (\<not> d) (snd (useTheme_effect h (\<not> d) b))))))"
    using Suc.IH[OF Suc.prems, of "\<not> d"] by simp
  also have "toggles h n (\<not> d) (snd (useTheme_effect h (\<not> d) b)) = toggles h (Suc n) d b"
    using Suc.prems by (simp add: toggle_ok)
  finally show ?case by simp
qed

lemma toggles_consistent:
  assumes ok: "\<not> storage_denied h" and c: "consistent d b"
  shows "fst (toggles h n d b) = Inr (if even n then d else \<not> d) \<and>
         consistent (if even n then d else \<not> d) (snd (toggles h n d b))"
proof (cases n)
  case 0
  then show ?thesis using c by simp
next
  case (Suc k)
  show ?thesis unfolding Suc using ok
    by (simp only: toggles_Suc_ok fst_conv snd_conv simp_thms) (simp add: effect_consistent)
qed

lemma effect_fixes_consistent:
  "\<not> storage_denied h \<Longrightarrow> consistent d b \<Longrightarrow> snd (useTheme_effect h d b) = b"
  by (auto simp: effect_ok consistent_def insert_absorb fun_upd_idem)

subsection \<open>Stored values that are not a mode\<close>

text \<open>
  C1, as the specification states it, fails. Line 9 is \<open>if (stored) return stored === 'dark'\<close>:
  a stored \<open>blue\<close> is truthy, so the initialiser answers light at once, although the
  environment prefers dark; with the key absent the same host answers dark.
\<close>

theorem malformed_stored_value_counterexample:
  "useTheme_init
     \<lparr>window_defined = True, storage_denied = False, matchMedia_defined = True,
      prefers_dark = True, observer_defined = True\<rparr>
     \<lparr>storage = [''theme'' \<mapsto> ''blue''], root_classes = {}\<rparr> = Inr False \<and>
   useTheme_init
     \<lparr>window_defined = True, storage_denied = False, matchMedia_defined = True,
      prefers_dark = True, observer_defined = True\<rparr>
     \<lparr>storage = Map.empty, root_classes = {}\<rparr> = Inr True"
  by (simp add: useTheme_init_def getItem_def truthy_def matchMedia_matches_def)

text \<open>
  C1 (amended): in a browser whose storage can be read, a stored value that is not the
  empty string decides the mode by itself: dark exactly when it is \<open>dark\<close>, so every other
  non-empty value gives light whatever the environment prefers. Only the empty string is
  treated as an absent value.
\<close>

theorem stored_value_resolution:
  assumes "window_defined h" and "\<not> storage_denied h" and "storage b ''theme'' = Some v"
  shows "(v \<noteq> '''' \<longrightarrow> useTheme_init h b = Inr (v = ''dark'')) \<and>
         (v = '''' \<longrightarrow>
            useTheme_init h b = useTheme_init h (b\<lparr>storage := (storage b)(''theme'' := None)\<rparr>))"
  using assms by (simp add: useTheme_init_def getItem_def truthy_def)

theorem stored_value_resolution_witness:
  "useTheme_init
     \<lparr>window_defined = True, storage_denied = False, matchMedia_defined = True,
      prefers_dark = True, observer_defined = True\<rparr>
     \<lparr>storage = [''theme'' \<mapsto> ''blue''], root_classes = {}\<rparr> = Inr (''blue'' = ''dark'') \<and>
   useTheme_init
     \<lparr>window_defined = True, storage_denied = False, matchMedia_defined = True,
      prefers_dark = True, observer_defined = True\<rparr>
     \<lparr>storage = [''theme'' \<mapsto> ''''], root_classes = {}\<rparr> =
   useTheme_init
     \<lparr>window_defined = True, storage_denied = False, matchMedia_defined = True,
      prefers_dark = True, observer_defined = True\<rparr>
     (\<lparr>storage = [''theme'' \<mapsto> ''''], root_classes = {}\<rparr>
        \<lparr>storage := [''theme'' \<mapsto> ''''](''theme'' := None)\<rparr>)"
  using
    stored_value_resolution
      [of "\<lparr>window_defined = True, storage_denied = False, matchMedia_defined = True,
            prefers_dark = True, observer_defined = True\<rparr>"
          "\<lparr>storage = [''theme'' \<mapsto> ''blue''], root_classes = {}\<rparr>" "''blue''"]
    stored_value_resolution
      [of "\<lparr>window_defined = True, storage_denied = False, matchMedia_defined = True,
            prefers_dark = True, observer_defined = True\<rparr>"
          "\<lparr>storage = [''theme'' \<mapsto> ''''], root_classes = {}\<rparr>" "''''"]
  by simp

subsection \<open>Failing host interfaces\<close>

text \<open>
  C2, as the specification states it, fails. Nothing in \<open>useTheme\<close> catches an exception:
  in a browser whose \<open>localStorage\<close> raises, the initialiser raises, and so does the
  effect.
\<close>

theorem storage_failure_counterexample:
  "useTheme_init
     \<lparr>window_defined = True, storage_denied = True, matchMedia_defined = True,
      prefers_dark = False, observer_defined = True\<rparr>
     \<lparr>storage = Map.empty, root_classes = {}\<rparr> = Inl SecurityError \<and>
   fst (useTheme_effect
     \<lparr>window_defined = True, storage_denied = True, matchMedia_defined = True,
      prefers_dark = False, observer_defined = True\<rparr>
     False
     \<lparr>storage = Map.empty, root_classes = {}\<rparr>) = Inl SecurityError"
  by (simp add: useTheme_init_def getItem_def useTheme_effect_def setItem_def)

text \<open>
  C2 (amended): the one failure \<open>useTheme\<close> handles is a missing \<open>window\<close>, where the
  initialiser answers light and reads nothing. With a \<open>window\<close>, a \<open>localStorage\<close> that
  raises makes the initialiser raise; with readable storage that holds no non-empty
  value, a missing \<open>matchMedia\<close> makes it raise; and a \<open>localStorage\<close> that raises makes
  the effect raise after the class of the root has been changed and nothing has been
  stored.
\<close>

theorem only_missing_window_is_handled:
  "(\<not> window_defined h \<longrightarrow> useTheme_init h b = Inr False) \<and>
   (window_defined h \<and> storage_denied h \<longrightarrow> useTheme_init h b = Inl SecurityError) \<and>
   (window_defined h \<and> \<not> storage_denied h \<and> \<not> truthy (storage b ''theme'') \<and>
      \<not> matchMedia_defined h \<longrightarrow> useTheme_init h b = Inl TypeError) \<and>
   (storage_denied h \<longrightarrow>
      useTheme_effect h m b =
        (Inl SecurityError,
         if m then classList_add ''dark'' b else classList_remove ''dark'' b))"
  by (simp add: useTheme_init_def getItem_def matchMedia_matches_def useTheme_effect_def
      setItem_def)

theorem only_missing_window_is_handled_witness:
  "useTheme_init
     \<lparr>window_defined = False, storage_denied = True, matchMedia_defined = False,
      prefers_dark = True, observer_defined = False\<rparr>
     \<lparr>storage = [''theme'' \<mapsto> ''dark''], root_classes = {}\<rparr> = Inr False \<and>
   useTheme_init
     \<lparr>window_defined = True, storage_denied = True, matchMedia_defined = True,
      prefers_dark = True, observer_defined = True\<rparr>
     \<lparr>storage = [''theme'' \<mapsto> ''dark''], root_classes = {}\<rparr> = Inl SecurityError \<and>
   useTheme_init
     \<lparr>window_defined = True, storage_denied = False, matchMedia_defined = False,
      prefers_dark = True, observer_defined = True\<rparr>
     \<lparr>storage = Map.empty, root_classes = {}\<rparr> = Inl TypeError \<and>
   useTheme_effect
     \<lparr>window_defined = True, storage_denied = True, matchMedia_defined = True,
      prefers_dark = True, observer_defined = True\<rparr>
     True
     \<lparr>storage = [''theme'' \<mapsto> ''light''], root_classes = {}\<rparr> =
   (Inl SecurityError, \<lparr>storage = [''theme'' \<mapsto> ''light''], root_classes = {''dark''}\<rparr>)"
  using
    only_missing_window_is_handled
      [of "\<lparr>window_defined = False, storage_denied = True, matchMedia_defined = False,
            prefers_dark = True, observer_defined = False\<rparr>"
          "\<lparr>storage = [''theme'' \<mapsto> ''dark''], root_classes = {}\<rparr>" True]
    only_missing_window_is_handled
      [of "\<lparr>window_defined = True, storage_denied = True, matchMedia_defined = True,
            prefers_dark = True, observer_defined = True\<rparr>"
          "\<lparr>storage = [''theme'' \<mapsto> ''dark''], root_classes = {}\<rparr>" True]
    only_missing_window_is_handled
      [of "\<lparr>window_defined = True, storage_denied = False, matchMedia_defined = False,
            prefers_dark = True, observer_defined = True\<rparr>"
          "\<lparr>storage = Map.empty, root_classes = {}\<rparr>" True]
    only_missing_window_is_handled
      [of "\<lparr>window_defined = True, storage_denied = True, matchMedia_defined = True,
            prefers_dark = True, observer_defined = True\<rparr>"
          "\<lparr>storage = [''theme'' \<mapsto> ''light''], root_classes = {}\<rparr>" True]
  by (simp add: truthy_def classList_add_def)

subsection \<open>The stored choice and the environment\<close>

text \<open>
  C4: after one or more toggles in a browser whose storage works, the run ends in the
  flipped mode, and a fresh initial resolution in any later browser (whatever its
  \<open>prefers_dark\<close>, with or without \<open>matchMedia\<close>) that can read the storage returns that
  mode: the stored choice wins over the environment signal.
\<close>

theorem stored_choice_wins:
  assumes "\<not> storage_denied h" and "window_defined h'" and "\<not> storage_denied h'"
  shows "fst (toggles h (Suc n) d b) = Inr (if even n then \<not> d else d) \<and>
         useTheme_init h' (snd (toggles h (Suc n) d b)) = Inr (if even n then \<not> d else d)"
  using assms by (simp only: toggles_Suc_ok fst_conv snd_conv init_after_effect simp_thms)

theorem stored_choice_wins_witness:
  "\<not> storage_denied
      \<lparr>window_defined = True, storage_denied = False, matchMedia_defined = True,
       prefers_dark = True, observer_defined = True\<rparr> \<and>
   window_defined
      \<lparr>window_defined = True, storage_denied = False, matchMedia_defined = True,
       prefers_dark = False, observer_defined = True\<rparr> \<and>
   \<not> storage_denied
      \<lparr>window_defined = True, storage_denied = False, matchMedia_defined = True,
       prefers_dark = False, observer_defined = True\<rparr> \<and>
   fst (toggles
      \<lparr>window_defined = True, storage_denied = False, matchMedia_defined = True,
       prefers_dark = True, observer_defined = True\<rparr>
      (Suc 0) False
      \<lparr>storage = [''theme'' \<mapsto> ''light''], root_classes = {}\<rparr>) = Inr True \<and>
   useTheme_init
      \<lparr>window_defined = True, storage_denied = False, matchMedia_defined = True,
       prefers_dark = False, observer_defined = True\<rparr>
      (snd (toggles
        \<lparr>window_defined = True, storage_denied = False, matchMedia_defined = True,
         prefers_dark = True, observer_defined = True\<rparr>
        (Suc 0) False
        \<lparr>storage = [''theme'' \<mapsto> ''light''], root_classes = {}\<rparr>)) = Inr True"
  using stored_choice_wins
    [of "\<lparr>window_defined = True, storage_denied = False, matchMedia_defined = True,
          prefers_dark = True, observer_defined = True\<rparr>"
        "\<lparr>window_defined = True, storage_denied = False, matchMedia_defined = True,
          prefers_dark = False, observer_defined = True\<rparr>"
        0 False "\<lparr>storage = [''theme'' \<mapsto> ''light''], root_classes = {}\<rparr>"]
  by simp

text \<open>
  C7: in a browser whose storage works, applying a mode completes, and a fresh initial
  resolution in a browser that can read the storage returns the mode applied.
\<close>

theorem apply_resolve_roundtrip:
  assumes "\<not> storage_denied h" and "window_defined h'" and "\<not> storage_denied h'"
  shows "fst (useTheme_effect h m b) = Inr () \<and>
         useTheme_init h' (snd (useTheme_effect h m b)) = Inr m"
  using assms by (simp add: init_after_effect) (simp add: effect_ok)

theorem apply_resolve_roundtrip_witness:
  "useTheme_init
      \<lparr>window_defined = True, storage_denied = False, matchMedia_defined = True,
       prefers_dark = False, observer_defined = True\<rparr>
      (snd (useTheme_effect
        \<lparr>window_defined = True, storage_denied = False, matchMedia_defined = True,
         prefers_dark = False, observer_defined = True\<rparr>
        True \<lparr>storage = Map.empty, root_classes = {}\<rparr>)) = Inr True \<and>
   useTheme_init
      \<lparr>window_defined = True, storage_denied = False, matchMedia_defined = True,
       prefers_dark = True, observer_defined = True\<rparr>
      (snd (useTheme_effect
        \<lparr>window_defined = True, storage_denied = False, matchMedia_defined = True,
         prefers_dark = True, observer_defined = True\<rparr>
        False \<lparr>storage = Map.empty, root_classes = {}\<rparr>)) = Inr False"
  using
    apply_resolve_roundtrip
      [of "\<lparr>window_defined = True, storage_denied = False, matchMedia_defined = True,
            prefers_dark = False, observer_defined = True\<rparr>"
          "\<lparr>window_defined = True, storage_denied = False, matchMedia_defined = True,
            prefers_dark = False, observer_defined = True\<rparr>"
          True "\<lparr>storage = Map.empty, root_classes = {}\<rparr>"]
    apply_resolve_roundtrip
      [of "\<lparr>window_defined = True, storage_denied = False, matchMedia_defined = True,
            prefers_dark = True, observer_defined = True\<rparr>"
          "\<lparr>window_defined = True, storage_denied = False, matchMedia_defined = True,
            prefers_dark = True, observer_defined = True\<rparr>"
          False "\<lparr>storage = Map.empty, root_classes = {}\<rparr>"]
  by simp

subsection \<open>Root class, storage and mode agree\<close>

text \<open>
  C8: when mounting the hook completes with mode \<open>d\<close>, the root carries \<open>dark\<close> exactly
  when \<open>d\<close> is dark and storage holds the string of \<open>d\<close>, before any click; and every run
  of \<open>n\<close> toggles from there completes, in the mode flipped \<open>n\<close> times, with the root
  class and the stored string agreeing with that mode.
\<close>

theorem theme_invariant:
  assumes "useTheme_mount h b = (Inr d, b1)"
  shows "consistent d b1 \<and>
         fst (toggles h n d b1) = Inr (if even n then d else \<not> d) \<and>
         consistent (if even n then d else \<not> d) (snd (toggles h n d b1))"
proof -
  have ok: "\<not> storage_denied h"
    using assms
    by (auto simp: useTheme_mount_def useTheme_effect_def setItem_def
        split: sum.splits prod.splits if_splits)
  have "b1 = snd (useTheme_effect h d b)"
    using assms
    by (auto simp: useTheme_mount_def split: sum.splits prod.splits)
  then have "consistent d b1" using ok by (simp add: effect_consistent)
  then show ?thesis using toggles_consistent[OF ok, of d b1 n] by simp
qed

theorem theme_invariant_witness:
  "useTheme_mount
      \<lparr>window_defined = True, storage_denied = False, matchMedia_defined = True,
       prefers_dark = True, observer_defined = True\<rparr>
      \<lparr>storage = Map.empty, root_classes = {}\<rparr> =
     (Inr True, \<lparr>storage = [''theme'' \<mapsto> ''dark''], root_classes = {''dark''}\<rparr>) \<and>
   consistent True \<lparr>storage = [''theme'' \<mapsto> ''dark''], root_classes = {''dark''}\<rparr> \<and>
   fst (toggles
      \<lparr>window_defined = True, storage_denied = False, matchMedia_defined = True,
       prefers_dark = True, observer_defined = True\<rparr>
      (Suc 0) True
      \<lparr>storage = [''theme'' \<mapsto> ''dark''], root_classes = {''dark''}\<rparr>) = Inr False \<and>
   consistent False (snd (toggles
      \<lparr>window_defined = True, storage_denied = False, matchMedia_defined = True,
       prefers_dark = True, observer_defined = True\<rparr>
      (Suc 0) True
      \<lparr>storage = [''theme'' \<mapsto> ''dark''], root_classes = {''dark''}\<rparr>))"
proof -
  have mounted:
    "useTheme_mount
      \<lparr>window_defined = True, storage_denied = False, matchMedia_defined = True,
       prefers_dark = True, observer_defined = True\<rparr>
      \<lparr>storage = Map.empty, root_classes = {}\<rparr> =
     (Inr True, \<lparr>storage = [''theme'' \<mapsto> ''dark''], root_classes = {''dark''}\<rparr>)"
    by (simp add: useTheme_mount_def useTheme_init_def getItem_def truthy_def
        matchMedia_matches_def useTheme_effect_def setItem_def classList_add_def)
  show ?thesis
    using mounted theme_invariant [OF mounted, of "Suc 0"] by simp
qed

text \<open>
  C9: applying a mode to the browser that applying the same mode has left gives the
  same outcome and the same browser (root classes and storage) as applying it once.
\<close>

theorem apply_idempotent:
  "useTheme_effect h m (snd (useTheme_effect h m b)) = useTheme_effect h m b"
  by (simp add: useTheme_effect_def setItem_def classList_add_def classList_remove_def)

subsection \<open>Toggling twice\<close>

text \<open>
  C10, as stated for every theme state, fails where the state does not agree with the
  mode. The mode is dark and the root carries \<open>dark\<close>, but storage holds \<open>light\<close> (written
  by another page of the same origin): two toggles end in dark again, and storage now
  holds \<open>dark\<close>.
\<close>

theorem toggle_twice_counterexample:
  "fst (toggles
      \<lparr>window_defined = True, storage_denied = False, matchMedia_defined = True,
       prefers_dark = False, observer_defined = True\<rparr>
      2 True \<lparr>storage = [''theme'' \<mapsto> ''light''], root_classes = {''dark''}\<rparr>) = Inr True \<and>
   storage (snd (toggles
      \<lparr>window_defined = True, storage_denied = False, matchMedia_defined = True,
       prefers_dark = False, observer_defined = True\<rparr>
      2 True \<lparr>storage = [''theme'' \<mapsto> ''light''], root_classes = {''dark''}\<rparr>)) ''theme''
     = Some ''dark'' \<and>
   storage \<lparr>storage = [''theme'' \<mapsto> ''light''], root_classes = {''dark''}\<rparr> ''theme''
     = Some ''light''"
  by (simp add: numeral_2_eq_2 toggle_def useTheme_effect_def setItem_def classList_add_def
      classList_remove_def)

text \<open>
  C10 (amended): in a browser whose storage works, two toggles restore the mode and
  leave root classes and storage as applying the original mode would; when root class
  and stored value agreed with the mode before the first toggle, they are exactly what
  they were.
\<close>

theorem toggle_twice:
  assumes "\<not> storage_denied h"
  shows "fst (toggles h 2 d b) = Inr d \<and>
         snd (toggles h 2 d b) = snd (useTheme_effect h d b) \<and>
         (consistent d b \<longrightarrow> snd (toggles h 2 d b) = b)"
proof -
  have "toggles h 2 d b = (Inr d, snd (useTheme_effect h d (snd (useTheme_effect h (\<not> d) b))))"
    using assms by (simp add: numeral_2_eq_2 toggle_ok)
  moreover have
    "snd (useTheme_effect h d (snd (useTheme_effect h (\<not> d) b))) = snd (useTheme_effect h d b)"
    using assms by (cases d) (simp_all add: effect_ok)
  ultimately show ?thesis using assms by (simp add: effect_fixes_consistent)
qed

theorem toggle_twice_witness:
  "consistent True \<lparr>storage = [''theme'' \<mapsto> ''dark''], root_classes = {''dark'', ''js''}\<rparr> \<and>
   toggles
      \<lparr>window_defined = True, storage_denied = False, matchMedia_defined = True,
       prefers_dark = False, observer_defined = True\<rparr>
      2 True \<lparr>storage = [''theme'' \<mapsto> ''dark''], root_classes = {''dark'', ''js''}\<rparr> =
     (Inr True, \<lparr>storage = [''theme'' \<mapsto> ''dark''], root_classes = {''dark'', ''js''}\<rparr>)"
proof -
  let ?H = "\<lparr>window_defined = True, storage_denied = False, matchMedia_defined = True,
       prefers_dark = False, observer_defined = True\<rparr>"
  let ?B = "\<lparr>storage = [''theme'' \<mapsto> ''dark''], root_classes = {''dark'', ''js''}\<rparr>"
  have c: "consistent True ?B"
    by (simp add: consistent_def theme_string_def)
  have ok: "\<not> storage_denied ?H"
    by simp
  note twice = toggle_twice [OF ok, of True ?B]
  from twice have f: "fst (toggles ?H 2 True ?B) = Inr True"
    by (rule conjunct1)
  from twice c have s: "snd (toggles ?H 2 True ?B) = ?B"
    by blast
  show ?thesis
    by (simp only: prod_eq_iff fst_conv snd_conv c f s simp_thms)
qed

section \<open>Theorems about the observer\<close>

lemma handle_entry_active:
  "active (handle_entry e s) = (if qualifies e then elem_id (target e) else active s)"
  by (simp add: handle_entry_def qualifies_def add_class_def Let_def)

lemma handle_entry_classList:
  "classList (handle_entry e s) n =
     (if n = node (target e) \<and> data_reveal (target e) \<and> isIntersecting e
      then insert ''show'' (classList s n) else classList s n)"
  by (simp add: handle_entry_def add_class_def Let_def)

lemma callback_active:
  "active (observer_callback es s) =
     (case filter qualifies es of [] \<Rightarrow> active s | q # qs \<Rightarrow> elem_id (target (last (q # qs))))"
  unfolding observer_callback_def
proof (induction es arbitrary: s)
  case Nil
  show ?case by simp
next
  case (Cons e es)
  show ?case
  proof (cases "filter qualifies es")
    case Nil
    then show ?thesis using Cons.IH[of "handle_entry e s"]
      by (simp add: handle_entry_active)
  next
    case (Cons q qs)
    then show ?thesis using Cons.IH[of "handle_entry e s"]
      by simp
  qed
qed

lemma shown_kept_entry:
  "''show'' \<in> classList s n \<Longrightarrow> classList (handle_entry e s) n = classList s n"
  by (auto simp: handle_entry_classList)

lemma shown_kept_callback:
  "''show'' \<in> classList s n \<Longrightarrow> classList (observer_callback es s) n = classList s n"
  unfolding observer_callback_def
proof (induction es arbitrary: s)
  case Nil
  show ?case by simp
next
  case (Cons e es)
  have "classList (handle_entry e s) n = classList s n"
    using Cons.prems by (rule shown_kept_entry)
  moreover from this have "''show'' \<in> classList (handle_entry e s) n"
    using Cons.prems by simp
  ultimately show ?case using Cons.IH[of "handle_entry e s"] by simp
qed

lemma shown_kept_batches:
  "''show'' \<in> classList s n \<Longrightarrow> classList (run_batches bs s) n = classList s n"
  unfolding run_batches_def
proof (induction bs arbitrary: s)
  case Nil
  show ?case by simp
next
  case (Cons es bs)
  have "classList (observer_callback es s) n = classList s n"
    using Cons.prems by (rule shown_kept_callback)
  moreover from this have "''show'' \<in> classList (observer_callback es s) n"
    using Cons.prems by simp
  ultimately show ?case using Cons.IH[of "observer_callback es s"] by simp
qed

lemma deliver_unwatched:
  "watched s = [] \<Longrightarrow> deliver_all bs s = s"
  unfolding deliver_all_def
  by (induction bs) (simp_all add: deliver_def observer_callback_def)

lemma effect_without_observer:
  "\<not> observer_defined h \<Longrightarrow> App_effect h doc s = (Inl ReferenceError, disconnect s)"
  by (simp add: App_effect_def Let_def)

lemma watched_disconnect: "watched (disconnect s) = []"
  by (simp add: watched_def disconnect_def split: option.splits)

subsection \<open>A host without \<open>IntersectionObserver\<close>\<close>

text \<open>
  C3, as the specification states it, fails. Line 45 is \<open>new IntersectionObserver(...)\<close>
  with no test that the global exists: on a host without it the effect raises
  \<open>ReferenceError\<close>.
\<close>

theorem missing_observer_counterexample:
  "fst (App_effect
     \<lparr>window_defined = True, storage_denied = False, matchMedia_defined = True,
      prefers_dark = False, observer_defined = False\<rparr>
     [\<lparr>node = 0, tagName = ''SECTION'', id_attr = Some ''hero'', data_reveal = False\<rparr>]
     \<lparr>active = ''hero'', classList = (\<lambda>n. {}), observerRef = None\<rparr>) = Inl ReferenceError"
  by (simp add: App_effect_def Let_def)

text \<open>
  C3 (amended): on a host without \<open>IntersectionObserver\<close> the effect raises
  \<open>ReferenceError\<close>. It leaves no observer watching anything, so whatever notifications
  the host has, the active section and the class tokens of every element stay what they
  were before the effect: no section is set active and no reveal target is marked shown.
\<close>

theorem missing_observer_raises:
  assumes "\<not> observer_defined h"
  shows "fst (App_effect h doc s) = Inl ReferenceError \<and>
         watched (snd (App_effect h doc s)) = [] \<and>
         active (deliver_all batches (snd (App_effect h doc s))) = active s \<and>
         classList (deliver_all batches (snd (App_effect h doc s))) = classList s"
  using assms
  by (simp add: effect_without_observer watched_disconnect deliver_unwatched)
    (simp add: disconnect_def)

theorem missing_observer_raises_witness:
  "\<not> observer_defined
      \<lparr>window_defined = True, storage_denied = False, matchMedia_defined = True,
       prefers_dark = False, observer_defined = False\<rparr> \<and>
   fst (App_effect
     \<lparr>window_defined = True, storage_denied = False, matchMedia_defined = True,
      prefers_dark = False, observer_defined = False\<rparr>
     [\<lparr>node = 0, tagName = ''SECTION'', id_attr = Some ''about'', data_reveal = True\<rparr>]
     \<lparr>active = ''hero'', classList = (\<lambda>n. {}), observerRef = None\<rparr>) = Inl ReferenceError \<and>
   active (deliver_all
     [[\<lparr>target = \<lparr>node = 0, tagName = ''SECTION'', id_attr = Some ''about'', data_reveal = True\<rparr>,
        isIntersecting = True, intersectionRatio = 1 / 2\<rparr>]]
     (snd (App_effect
       \<lparr>window_defined = True, storage_denied = False, matchMedia_defined = True,
        prefers_dark = False, observer_defined = False\<rparr>
       [\<lparr>node = 0, tagName = ''SECTION'', id_attr = Some ''about'', data_reveal = True\<rparr>]
       \<lparr>active = ''hero'', classList = (\<lambda>n. {}), observerRef = None\<rparr>))) = ''hero''"
  using missing_observer_raises
    [of "\<lparr>window_defined = True, storage_denied = False, matchMedia_defined = True,
          prefers_dark = False, observer_defined = False\<rparr>"
        "[\<lparr>node = 0, tagName = ''SECTION'', id_attr = Some ''about'', data_reveal = True\<rparr>]"
        "\<lparr>active = ''hero'', classList = (\<lambda>n. {}), observerRef = None\<rparr>"
        "[[\<lparr>target = \<lparr>node = 0, tagName = ''SECTION'', id_attr = Some ''about'', data_reveal = True\<rparr>,
            isIntersecting = True, intersectionRatio = 1 / 2\<rparr>]]"]
  by simp

subsection \<open>Reveal targets\<close>

text \<open>
  C5: once an element carries \<open>show\<close>, it carries it after every sequence of batches the
  callback handles, whatever the entries say (not intersecting, ratio 0); its class
  tokens do not change at all any more, so a later entry for it does nothing to it.
\<close>

theorem reveal_monotonic:
  assumes "''show'' \<in> classList s n"
  shows "''show'' \<in> classList (run_batches batches s) n \<and>
         classList (run_batches batches s) n = classList s n"
  using assms by (simp add: shown_kept_batches)

theorem reveal_monotonic_witness:
  "''show'' \<in> classList \<lparr>active = ''hero'', classList = (\<lambda>n. {''reveal'', ''show''}), observerRef = None\<rparr> 3 \<and>
   ''show'' \<in> classList (run_batches
      [[\<lparr>target = \<lparr>node = 3, tagName = ''DIV'', id_attr = None, data_reveal = True\<rparr>,
         isIntersecting = False, intersectionRatio = 0\<rparr>]]
      \<lparr>active = ''hero'', classList = (\<lambda>n. {''reveal'', ''show''}), observerRef = None\<rparr>) 3"
  using reveal_monotonic
    [of "\<lparr>active = ''hero'', classList = (\<lambda>n. {''reveal'', ''show''}), observerRef = None\<rparr>" 3
        "[[\<lparr>target = \<lparr>node = 3, tagName = ''DIV'', id_attr = None, data_reveal = True\<rparr>,
            isIntersecting = False, intersectionRatio = 0\<rparr>]]"]
  by simp

subsection \<open>The active section\<close>

text \<open>
  C6: one entry sets the active section to its target's id exactly when the target is a
  section with an id and the entry is intersecting with a ratio above a quarter
  (\<open>qualifies\<close>), and leaves it alone otherwise; after a batch the active section is the
  id of the last qualifying entry in delivery order, or unchanged when none qualifies.
\<close>

theorem active_section_selection:
  "active (handle_entry e s) = (if qualifies e then elem_id (target e) else active s) \<and>
   active (observer_callback entries s) =
     (case filter qualifies entries of
        [] \<Rightarrow> active s
      | q # qs \<Rightarrow> elem_id (target (last (q # qs))))"
  by (simp only: handle_entry_active callback_active simp_thms)

theorem active_section_selection_witness:
  "active (observer_callback
     [\<lparr>target = \<lparr>node = 1, tagName = ''SECTION'', id_attr = Some ''about'', data_reveal = False\<rparr>,
       isIntersecting = True, intersectionRatio = 1 / 2\<rparr>,
      \<lparr>target = \<lparr>node = 2, tagName = ''SECTION'', id_attr = Some ''skills'', data_reveal = False\<rparr>,
       isIntersecting = True, intersectionRatio = 3 / 10\<rparr>,
      \<lparr>target = \<lparr>node = 3, tagName = ''SECTION'', id_attr = Some ''projects'', data_reveal = False\<rparr>,
       isIntersecting = True, intersectionRatio = 1 / 4\<rparr>]
     \<lparr>active = ''hero'', classList = (\<lambda>n. {}), observerRef = None\<rparr>) = ''skills''"
  using active_section_selection
    [of "\<lparr>target = \<lparr>node = 1, tagName = ''SECTION'', id_attr = Some ''about'', data_reveal = False\<rparr>,
          isIntersecting = True, intersectionRatio = 1 / 2\<rparr>"
        "\<lparr>active = ''hero'', classList = (\<lambda>n. {}), observerRef = None\<rparr>"
        "[\<lparr>target = \<lparr>node = 1, tagName = ''SECTION'', id_attr = Some ''about'', data_reveal = False\<rparr>,
           isIntersecting = True, intersectionRatio = 1 / 2\<rparr>,
          \<lparr>target = \<lparr>node = 2, tagName = ''SECTION'', id_attr = Some ''skills'', data_reveal = False\<rparr>,
           isIntersecting = True, intersectionRatio = 3 / 10\<rparr>,
          \<lparr>target = \<lparr>node = 3, tagName = ''SECTION'', id_attr = Some ''projects'', data_reveal = False\<rparr>,
           isIntersecting = True, intersectionRatio = 1 / 4\<rparr>]"]
  by (simp add: qualifies_def elem_id_def)

end
